theory Spec2Isabelle
  imports Main "HOL-Library.AList"
begin

section \<open>Python values shared by the views of \<open>moreviews/editviews.py\<close>\<close>

text \<open>
  The exceptions that cross the functions of the module. \<open>ImproperlyConfigured\<close> is the
  only one the module raises itself and the only one it catches; \<open>AttributeError\<close> is what
  Python raises when an attribute that was never set is read; the other two come from the
  framework (a failed object lookup, anything else).
\<close>

datatype error =
    ImproperlyConfigured string
  | AttributeError string
  | Http404
  | HostError string

text \<open>
  An attribute of the view that may never have been assigned (\<open>hasattr\<close> is false), may
  hold \<open>None\<close>, or may hold an object.
\<close>

datatype 'a attr = Unset | PyNone | Obj 'a

text \<open>
  \<open>_meta\<close> of a model class or of a model instance: only \<open>app_label\<close> and
  \<open>object_name\<close> are read by the module.
\<close>

record pymeta =
  app_label :: string
  object_name :: string

text \<open>
  A model instance: its \<open>_meta\<close>, when it has one (\<open>hasattr(obj, '_meta')\<close>), and its
  attributes by name, in the order they were first set.
\<close>

record 'v pyobj =
  obj_meta :: "pymeta option"
  obj_attrs :: "(string \<times> 'v) list"

text \<open>
  A declared field of a model: its name, and whether it is an instance of
  \<open>models.ForeignKey\<close>.
\<close>

record pyfield =
  field_name :: string
  is_foreign_key :: bool

record pymodel =
  model_meta :: "pymeta option"
  model_fields :: "pyfield list"

text \<open>
  \<open>str.lower()\<close> on a byte string: the letters A to Z are mapped to a to z, every other
  byte is kept.
\<close>

definition lower_char :: "char \<Rightarrow> char" where
  "lower_char c =
     (let n = (of_char c :: nat) in if 65 \<le> n \<and> n \<le> 90 then char_of (n + 32) else c)"

definition lower :: "string \<Rightarrow> string" where
  "lower s = map lower_char s"

section \<open>\<open>BoundCreateView\<close>\<close>

text \<open>
  The attributes of a view instance that the methods below read or assign.
\<close>

record 'v view =
  object :: "'v pyobj attr"
  new_object :: "'v pyobj attr"
  model :: "pymodel option"
  template_name_suffix :: string
  bound_field :: string

text \<open>
  \<open>BoundCreateView.get_form_kwargs\<close>. The superclass method is a parameter: it reads the
  view and returns the keyword arguments or raises. Reading \<open>self.object\<close> raises when
  the attribute was never assigned. \<open>self.object\<close> is cleared before the call of the
  superclass and assigned back after it; when the call raises, the assignment back is
  not reached. The result is the value returned (or the exception) and the view
  afterwards.
\<close>

definition get_form_kwargs ::
  "('v view \<Rightarrow> error + 'k) \<Rightarrow> 'v view \<Rightarrow> (error + 'k) \<times> 'v view" where
  "get_form_kwargs super_get_form_kwargs self =
     (case object self of
        Unset \<Rightarrow> (Inl (AttributeError ''object''), self)
      | kept_object \<Rightarrow>
          (let self1 = self\<lparr>object := PyNone\<rparr>
           in case super_get_form_kwargs self1 of
                Inl e \<Rightarrow> (Inl e, self1)
              | Inr kwargs \<Rightarrow> (Inr kwargs, self1\<lparr>object := kept_object\<rparr>)))"

text \<open>
  The \<open>try\<close> block of \<open>get_template_names\<close>: \<open>ImproperlyConfigured\<close> from the superclass
  chain becomes the empty list, every other exception goes on.
\<close>

fun super_names_or_empty :: "error + string list \<Rightarrow> error + string list" where
  "super_names_or_empty (Inl (ImproperlyConfigured msg)) = Inr []"
| "super_names_or_empty (Inl e) = Inl e"
| "super_names_or_empty (Inr names) = Inr names"

text \<open>
  \<open>BoundCreateView.get_template_names\<close>. The four \<open>names.insert(0, ...)\<close> calls are four
  conses, in the order of the source, so the name inserted last comes first.
\<close>

definition get_template_names ::
  "('v view \<Rightarrow> error + string list) \<Rightarrow> 'v view \<Rightarrow> error + string list" where
  "get_template_names super_get_template_names self =
     (case super_names_or_empty (super_get_template_names self) of
        Inl e \<Rightarrow> Inl e
      | Inr names \<Rightarrow>
          (case object self of
             Unset \<Rightarrow> Inl (AttributeError ''object'')
           | PyNone \<Rightarrow> Inr names
           | Obj obj \<Rightarrow>
               (case obj_meta obj of
                  None \<Rightarrow> Inr names
                | Some parent_meta \<Rightarrow>
                    (case model self of
                       None \<Rightarrow> Inr names
                     | Some m \<Rightarrow>
                         (case model_meta m of
                            None \<Rightarrow> Inr names
                          | Some child_meta \<Rightarrow>
                              (let parent_app = app_label parent_meta;
                                   parent_object_name = lower (object_name parent_meta);
                                   child_app = app_label child_meta;
                                   child_object_name = lower (object_name child_meta);
                                   suffix = template_name_suffix self;
                                   names1 = (parent_app @ ''/'' @ child_object_name
                                              @ suffix @ ''.html'') # names;
                                   names2 = (child_app @ ''/'' @ child_object_name
                                              @ suffix @ ''.html'') # names1;
                                   names3 = (child_app @ ''/'' @ parent_object_name @ ''_''
                                              @ child_object_name @ suffix @ ''.html'') # names2;
                                   names4 = (parent_app @ ''/'' @ parent_object_name @ ''_''
                                              @ child_object_name @ suffix @ ''.html'') # names3
                               in Inr names4))))))"


section \<open>\<open>bound_object_form\<close>\<close>

text \<open>
  What the module asks of the framework while it saves, in the order of the calls:
  \<open>initial()\<close> (the zero-argument producer of a bound value), \<open>obj.save()\<close> on a model
  instance, and, in the POST handler, \<open>form.save(commit=...)\<close> on the primary form,
  \<open>f.save()\<close> on the secondary form stored under a key, and \<open>form.save_m2m()\<close>.
  The rows of the database are not modelled beyond these calls.
\<close>

datatype 'v event =
    ProducerCall
  | ObjectSave "'v pyobj"
  | FormSave bool
  | SecondarySave string
  | SaveM2M

text \<open>
  The \<open>initial\<close> argument: a plain value, or a callable. The callable reads the state
  of the program at the moment it is called (\<open>'s\<close>) and returns a value or raises.
\<close>

datatype ('s, 'v) bound = Plain 'v | Callable "'s \<Rightarrow> error + 'v"

text \<open>
  A form class, as far as the module uses one: \<open>Meta.model\<close>, \<open>Meta.exclude\<close> when
  \<open>Meta\<close> has that attribute (a sequence of field names), and the \<open>save\<close> method. A form
  instance is the class with the data \<open>'d\<close> it was constructed on; \<open>save\<close> takes that
  data, the \<open>commit\<close> flag and the state of the program, and returns the instance with
  the calls it made, or raises.
\<close>

record ('s, 'd, 'v) form_class =
  meta_model :: pymodel
  meta_exclude :: "string list option"
  save :: "'d \<Rightarrow> bool \<Rightarrow> 's \<Rightarrow> error + ('v pyobj \<times> 'v event list)"

text \<open>\<open>setattr(obj, field, value)\<close> and \<open>getattr(obj, field)\<close> on a model instance.\<close>

definition setattr :: "'v pyobj \<Rightarrow> string \<Rightarrow> 'v \<Rightarrow> 'v pyobj" where
  "setattr obj field v = obj\<lparr>obj_attrs := AList.update field v (obj_attrs obj)\<rparr>"


text \<open>
  The class \<open>form\<close> that \<open>bound_object_form\<close> declares when it is given none: a
  \<open>ModelForm\<close> whose \<open>Meta\<close> has the model and nothing else. Its \<open>save\<close> is the
  framework's, a parameter here.
\<close>

definition default_form ::
  "(pymodel \<Rightarrow> 'd \<Rightarrow> bool \<Rightarrow> 's \<Rightarrow> error + ('v pyobj \<times> 'v event list))
   \<Rightarrow> pymodel \<Rightarrow> ('s, 'd, 'v) form_class" where
  "default_form modelform_save the_model =
     \<lparr>meta_model = the_model, meta_exclude = None, save = modelform_save the_model\<rparr>"

text \<open>
  Lines 55 to 58: the value assigned to the field. A callable is called, on the state
  at that moment, and the call is recorded; a plain value is taken as it is.
\<close>

definition resolve_initial ::
  "('s, 'v) bound \<Rightarrow> 's \<Rightarrow> error + ('v \<times> 'v event list)" where
  "resolve_initial initial s =
     (case initial of
        Callable producer \<Rightarrow>
          (case producer s of Inl e \<Rightarrow> Inl e | Inr v \<Rightarrow> Inr (v, [ProducerCall]))
      | Plain v \<Rightarrow> Inr (v, []))"

text \<open>
  \<open>_form.save\<close>: the base class's \<open>save\<close> with \<open>commit=False\<close>, the assignment of the
  resolved value, \<open>obj.save()\<close> when \<open>commit\<close> is set, and the instance returned.
\<close>

definition bound_save ::
  "('s, 'd, 'v) form_class \<Rightarrow> string \<Rightarrow> ('s, 'v) bound
   \<Rightarrow> 'd \<Rightarrow> bool \<Rightarrow> 's \<Rightarrow> error + ('v pyobj \<times> 'v event list)" where
  "bound_save form field initial data commit s =
     (case save form data False s of
        Inl e \<Rightarrow> Inl e
      | Inr (obj, base_calls) \<Rightarrow>
          (case resolve_initial initial s of
             Inl e \<Rightarrow> Inl e
           | Inr (v, producer_calls) \<Rightarrow>
               (let obj1 = setattr obj field v
                in Inr (obj1,
                        base_calls @ producer_calls
                          @ (if commit then [ObjectSave obj1] else [])))))"

text \<open>
  \<open>bound_object_form\<close>: the base form is the one given or the default one; the
  exclusion list is the base form's, or \<open>(field,)\<close> when it has none, with \<open>field\<close>
  appended when it is not in it; the class returned has the base form's model, that
  exclusion list, and the \<open>save\<close> above.
\<close>

definition bound_object_form ::
  "(pymodel \<Rightarrow> 'd \<Rightarrow> bool \<Rightarrow> 's \<Rightarrow> error + ('v pyobj \<times> 'v event list))
   \<Rightarrow> pymodel \<Rightarrow> string \<Rightarrow> ('s, 'v) bound \<Rightarrow> ('s, 'd, 'v) form_class option
   \<Rightarrow> ('s, 'd, 'v) form_class" where
  "bound_object_form modelform_save the_model field initial form_arg =
     (let form = (case form_arg of None \<Rightarrow> default_form modelform_save the_model | Some f \<Rightarrow> f);
          excludes = (case meta_exclude form of None \<Rightarrow> [field] | Some ex \<Rightarrow> ex);
          excludes1 = (if field \<notin> set excludes then excludes @ [field] else excludes)
      in \<lparr>meta_model = meta_model form,
          meta_exclude = Some excludes1,
          save = bound_save form field initial\<rparr>)"

text \<open>
  Constructing a form from a class: \<open>_form\<close> declares no \<open>__init__\<close>, so the module runs
  nothing of its own; the instance is the class with its data, and no call of the list
  above is made.
\<close>

record ('s, 'd, 'v) form_instance =
  form_type :: "('s, 'd, 'v) form_class"
  form_data :: 'd

definition construct_form ::
  "('s, 'd, 'v) form_class \<Rightarrow> 'd \<Rightarrow> ('s, 'd, 'v) form_instance \<times> 'v event list" where
  "construct_form cls data = (\<lparr>form_type = cls, form_data = data\<rparr>, [])"

definition form_save ::
  "('s, 'd, 'v) form_instance \<Rightarrow> bool \<Rightarrow> 's \<Rightarrow> error + ('v pyobj \<times> 'v event list)" where
  "form_save f commit s = save (form_type f) (form_data f) commit s"

section \<open>\<open>bound_object_formset\<close>\<close>

text \<open>
  The list under the key \<open>exclude\<close> of the factory options is the caller's own list
  object: \<open>**factory_kwargs\<close> copies the dictionary, not the values in it. Lists of
  field names therefore live in a store, addressed by number, and the options hold the
  address. Every address holds a list; \<open>empty_heap\<close> holds the empty list everywhere.
\<close>

type_synonym heap = "nat \<Rightarrow> string list"

definition empty_heap :: heap where
  "empty_heap = (\<lambda>a. [])"

text \<open>
  The keyword arguments passed on to \<open>modelformset_factory\<close>: the address of the
  \<open>exclude\<close> list when the key is there, and the other options (\<open>can_delete\<close>,
  \<open>extra\<close>, ...) by name.
\<close>

record factory_kwargs =
  kw_exclude :: "nat option"
  kw_other :: "(string \<times> string) list"

text \<open>
  The formset that \<open>modelformset_factory(model=..., form=..., **factory_kwargs)\<close>
  builds and the call of it constructs: the arguments it was given. \<open>fs_exclude\<close> is the
  content of the \<open>exclude\<close> list at that moment, \<open>fs_args\<close> the arguments of the
  constructing call other than \<open>queryset\<close>.
\<close>

record ('s, 'd, 'v, 'q, 'a) formset =
  fs_model :: pymodel
  fs_form :: "('s, 'd, 'v) form_class"
  fs_exclude :: "string list option"
  fs_options :: "(string \<times> string) list"
  fs_queryset :: 'q
  fs_args :: 'a

text \<open>
  \<open>bound_object_formset\<close>: when the options have an \<open>exclude\<close> list that does not
  hold \<open>field\<close>, the field is appended to that list, in place; the function returned,
  \<open>construct\<close>, builds the formset from the bound form when it is called.
\<close>

definition bound_object_formset ::
  "(pymodel \<Rightarrow> 'd \<Rightarrow> bool \<Rightarrow> 's \<Rightarrow> error + ('v pyobj \<times> 'v event list))
   \<Rightarrow> pymodel \<Rightarrow> 'q \<Rightarrow> string \<Rightarrow> ('s, 'v) bound \<Rightarrow> ('s, 'd, 'v) form_class option
   \<Rightarrow> factory_kwargs \<Rightarrow> heap
   \<Rightarrow> ('a \<Rightarrow> heap \<Rightarrow> ('s, 'd, 'v, 'q, 'a) formset) \<times> heap" where
  "bound_object_formset modelform_save the_model queryset field initial form kwargs heap =
     (let heap1 =
            (case kw_exclude kwargs of
               None \<Rightarrow> heap
             | Some a \<Rightarrow>
                 if field \<notin> set (heap a) then heap(a := heap a @ [field]) else heap);
          construct =
            (\<lambda>args h.
               \<lparr>fs_model = the_model,
                fs_form = bound_object_form modelform_save the_model field initial form,
                fs_exclude = map_option h (kw_exclude kwargs),
                fs_options = kw_other kwargs,
                fs_queryset = queryset,
                fs_args = args\<rparr>)
      in (construct, heap1))"

section \<open>\<open>MultiBoundObjectFormsMixin\<close>\<close>

text \<open>
  The base query of a formset: one given in the configuration,
  \<open>model.objects.none()\<close>, or \<open>model.objects.filter(**{field: obj})\<close>.
\<close>

datatype ('q, 'o) queryset =
    Given 'q
  | EmptyQuery pymodel
  | Filtered pymodel string 'o

text \<open>
  An entry of \<open>forms_models\<close>: a model, or a dictionary with the key \<open>model\<close>, the
  optional keys \<open>field_name\<close> and \<open>queryset\<close> (a key that holds \<open>None\<close> reads as a
  missing one), and the remaining keys, which are the keyword arguments of
  \<open>bound_object_formset\<close>: \<open>form\<close> and the factory options.
\<close>

record ('s, 'd, 'v, 'q) conf_dict =
  conf_model :: pymodel
  conf_field_name :: "string option"
  conf_queryset :: "'q option"
  conf_form :: "('s, 'd, 'v) form_class option"
  conf_factory :: factory_kwargs

datatype ('s, 'd, 'v, 'q) model_conf =
    Model pymodel
  | Dict "('s, 'd, 'v, 'q) conf_dict"

text \<open>Lines 348 to 362: what the two branches of \<open>isinstance(model_conf, dict)\<close> assign.\<close>

fun entry_model :: "('s, 'd, 'v, 'q) model_conf \<Rightarrow> pymodel" where
  "entry_model (Dict d) = conf_model d"
| "entry_model (Model m) = m"

fun entry_field_name :: "('s, 'd, 'v, 'q) model_conf \<Rightarrow> string option" where
  "entry_field_name (Dict d) = conf_field_name d"
| "entry_field_name (Model m) = None"

fun entry_queryset :: "('s, 'd, 'v, 'q) model_conf \<Rightarrow> 'q option" where
  "entry_queryset (Dict d) = conf_queryset d"
| "entry_queryset (Model m) = None"

fun entry_form :: "('s, 'd, 'v, 'q) model_conf \<Rightarrow> ('s, 'd, 'v) form_class option" where
  "entry_form (Dict d) = conf_form d"
| "entry_form (Model m) = None"

fun entry_factory_kwargs :: "('s, 'd, 'v, 'q) model_conf \<Rightarrow> factory_kwargs" where
  "entry_factory_kwargs (Dict d) = conf_factory d"
| "entry_factory_kwargs (Model m) = \<lparr>kw_exclude = None, kw_other = []\<rparr>"

text \<open>
  Lines 366 to 368: the loop over \<open>model._meta.fields\<close>. It has no \<open>break\<close>: every
  foreign key met assigns \<open>foreign_key_field\<close> again.
\<close>

fun scan_fields :: "pyfield list \<Rightarrow> string option \<Rightarrow> string option" where
  "scan_fields [] foreign_key_field = foreign_key_field"
| "scan_fields (field # rest) foreign_key_field =
     scan_fields rest
       (if is_foreign_key field then Some (field_name field) else foreign_key_field)"

text \<open>
  Lines 363 to 372: the name of the parent field of an entry. Reading \<open>model._meta\<close> on
  a class that has none raises \<open>AttributeError\<close>.
\<close>

definition foreign_key_field_of :: "('s, 'd, 'v, 'q) model_conf \<Rightarrow> error + string" where
  "foreign_key_field_of model_conf =
     (case entry_field_name model_conf of
        Some name \<Rightarrow> Inr name
      | None \<Rightarrow>
          (case model_meta (entry_model model_conf) of
             None \<Rightarrow> Inl (AttributeError ''_meta'')
           | Some meta \<Rightarrow>
               (case scan_fields (model_fields (entry_model model_conf)) None of
                  None \<Rightarrow>
                    Inl (ImproperlyConfigured
                      ''MultiBoundObjectFormsMixin.forms_models must contain either models with a ForeignKey or a dictionary of configuration.'')
                | Some name \<Rightarrow> Inr name)))"

text \<open>Lines 373 to 381: the base query of an entry, once the field name is known.\<close>

definition queryset_of ::
  "'o view \<Rightarrow> ('s, 'd, 'v, 'q) model_conf \<Rightarrow> string \<Rightarrow> ('q, 'o pyobj) queryset" where
  "queryset_of self model_conf foreign_key_field =
     (case entry_queryset model_conf of
        Some q \<Rightarrow> Given q
      | None \<Rightarrow>
          (case object self of
             Unset \<Rightarrow> EmptyQuery (entry_model model_conf)
           | PyNone \<Rightarrow> EmptyQuery (entry_model model_conf)
           | Obj obj \<Rightarrow> Filtered (entry_model model_conf) foreign_key_field obj))"

text \<open>
  \<open>lambda: self.new_object\<close>, the bound value of every formset of the mixin: it reads
  the view when it is called, and raises when the attribute was never assigned.
\<close>

definition new_object_producer :: "'o view \<Rightarrow> error + 'o pyobj option" where
  "new_object_producer self =
     (case new_object self of
        Unset \<Rightarrow> Inl (AttributeError ''new_object'')
      | PyNone \<Rightarrow> Inr None
      | Obj obj \<Rightarrow> Inr (Some obj))"

text \<open>
  One turn of the loop of \<open>get_forms\<close>: the key and the formset stored under it, and
  the store afterwards. \<open>form_kwargs\<close> is \<open>FormMixin.get_form_kwargs(self)\<close>, the
  framework's.
\<close>

definition get_forms_entry ::
  "(pymodel \<Rightarrow> 'd \<Rightarrow> bool \<Rightarrow> 'o view \<Rightarrow> error + ('o pyobj option pyobj \<times> 'o pyobj option event list))
   \<Rightarrow> 'k \<Rightarrow> 'o view \<Rightarrow> ('o view, 'd, 'o pyobj option, 'q) model_conf \<Rightarrow> heap
   \<Rightarrow> error + ((string \<times> ('o view, 'd, 'o pyobj option, ('q, 'o pyobj) queryset, string \<times> 'k) formset)
               \<times> heap)" where
  "get_forms_entry modelform_save form_kwargs self model_conf heap =
     (case foreign_key_field_of model_conf of
        Inl e \<Rightarrow> Inl e
      | Inr foreign_key_field \<Rightarrow>
          (let queryset = queryset_of self model_conf foreign_key_field;
               (construct, heap1) =
                  bound_object_formset modelform_save (entry_model model_conf) queryset
                    foreign_key_field (Callable new_object_producer) (entry_form model_conf)
                    (entry_factory_kwargs model_conf) heap
           in case model_meta (entry_model model_conf) of
                None \<Rightarrow> Inl (AttributeError ''_meta'')
              | Some meta \<Rightarrow>
                  (let key = lower (object_name meta)
                   in Inr ((key, construct (key, form_kwargs) heap1), heap1))))"

text \<open>
  The loop: the dictionary \<open>forms\<close> is a list of keys and formsets; assigning to a key
  that is there replaces its formset.
\<close>

fun get_forms_loop ::
  "(pymodel \<Rightarrow> 'd \<Rightarrow> bool \<Rightarrow> 'o view \<Rightarrow> error + ('o pyobj option pyobj \<times> 'o pyobj option event list))
   \<Rightarrow> 'k \<Rightarrow> 'o view \<Rightarrow> ('o view, 'd, 'o pyobj option, 'q) model_conf list
   \<Rightarrow> (string \<times> ('o view, 'd, 'o pyobj option, ('q, 'o pyobj) queryset, string \<times> 'k) formset) list
   \<Rightarrow> heap
   \<Rightarrow> error + ((string \<times> ('o view, 'd, 'o pyobj option, ('q, 'o pyobj) queryset, string \<times> 'k) formset) list
               \<times> heap)" where
  "get_forms_loop modelform_save form_kwargs self [] forms heap = Inr (forms, heap)"
| "get_forms_loop modelform_save form_kwargs self (model_conf # rest) forms heap =
     (case get_forms_entry modelform_save form_kwargs self model_conf heap of
        Inl e \<Rightarrow> Inl e
      | Inr ((key, fs), heap1) \<Rightarrow>
          get_forms_loop modelform_save form_kwargs self rest (AList.update key fs forms) heap1)"

definition MultiBoundObjectFormsMixin_get_forms ::
  "(pymodel \<Rightarrow> 'd \<Rightarrow> bool \<Rightarrow> 'o view \<Rightarrow> error + ('o pyobj option pyobj \<times> 'o pyobj option event list))
   \<Rightarrow> 'k \<Rightarrow> ('o view, 'd, 'o pyobj option, 'q) model_conf list \<Rightarrow> 'o view \<Rightarrow> heap
   \<Rightarrow> error + ((string \<times> ('o view, 'd, 'o pyobj option, ('q, 'o pyobj) queryset, string \<times> 'k) formset) list
               \<times> heap)" where
  "MultiBoundObjectFormsMixin_get_forms modelform_save form_kwargs forms_models self heap =
     get_forms_loop modelform_save form_kwargs self forms_models [] heap"

section \<open>\<open>ProcessMultipleFormsMixin\<close>\<close>

text \<open>
  The forms the POST handler works on. The primary form is a \<open>ModelForm\<close>:
  \<open>is_valid()\<close>, and \<open>save(commit=...)\<close>, which reads the view and returns the instance
  or raises. A secondary form or formset has \<open>is_valid()\<close> and \<open>save()\<close>; what its
  \<open>save\<close> returns is collected and not used.
\<close>

record 'v primary_form =
  pf_is_valid :: bool
  pf_save :: "bool \<Rightarrow> 'v view \<Rightarrow> error + 'v pyobj"

record ('v, 'r) secondary_form =
  sf_is_valid :: bool
  sf_save :: "'v view \<Rightarrow> error + 'r"

text \<open>
  The methods of the view that \<open>post\<close> and \<open>get_context_data\<close> call and that other
  classes of the view define: \<open>self.get_form(self.get_form_class())\<close>, which may assign
  attributes of the view (\<open>BoundCreateView.get_form_class\<close> assigns \<open>self.object\<close>);
  \<open>self.get_forms()\<close>, whose dictionary is the list of its items in the order
  \<open>values()\<close> gives them; \<open>self.get_success_url()\<close>, which may assign attributes too
  (\<open>MultiCreateView\<close>); and the superclass's \<open>get_context_data()\<close>.
\<close>

record ('v, 'r, 'c) view_class =
  vc_get_form :: "'v view \<Rightarrow> (error + 'v primary_form) \<times> 'v view"
  vc_get_forms :: "'v view \<Rightarrow> error + (string \<times> ('v, 'r) secondary_form) list"
  vc_get_success_url :: "'v view \<Rightarrow> (error + string) \<times> 'v view"
  vc_super_get_context_data :: "'v view \<Rightarrow> 'c"

text \<open>\<open>ProcessMultipleFormsMixin.get_forms\<close>, for a view that does not override it.\<close>

definition ProcessMultipleFormsMixin_get_forms ::
  "'v view \<Rightarrow> error + (string \<times> ('v, 'r) secondary_form) list" where
  "ProcessMultipleFormsMixin_get_forms self =
     Inl (ImproperlyConfigured ''ProcessMultipleFormsMixin must have get_forms overridden.'')"

record ('v, 'r, 'c) context_data =
  ctx_form :: "'v primary_form"
  ctx_forms :: "(string \<times> ('v, 'r) secondary_form) list"
  ctx_super :: 'c

datatype ('v, 'r, 'c) response =
    HttpResponseRedirect string
  | TemplateResponse "('v, 'r, 'c) context_data"

text \<open>
  \<open>get_context_data\<close>: the primary form and the secondary forms are constructed
  again, and stored in the superclass's context.
\<close>

definition get_context_data ::
  "('v, 'r, 'c) view_class \<Rightarrow> 'v view \<Rightarrow> (error + ('v, 'r, 'c) context_data) \<times> 'v view" where
  "get_context_data cls self =
     (case vc_get_form cls self of
        (Inl e, self1) \<Rightarrow> (Inl e, self1)
      | (Inr form, self1) \<Rightarrow>
          (case vc_get_forms cls self1 of
             Inl e \<Rightarrow> (Inl e, self1)
           | Inr forms \<Rightarrow>
               (Inr \<lparr>ctx_form = form, ctx_forms = forms,
                     ctx_super = vc_super_get_context_data cls self1\<rparr>, self1)))"

text \<open>
  Line 281, \<open>[ f.save() for f in forms.values() ]\<close>: the forms are saved in the order
  of \<open>values()\<close>; the first \<open>save\<close> that raises ends the loop. The result is the list of
  what the saves returned, or the exception, with the calls made.
\<close>

fun save_forms ::
  "(string \<times> ('v, 'r) secondary_form) list \<Rightarrow> 'v view \<Rightarrow> (error + 'r list) \<times> 'v event list" where
  "save_forms [] self = (Inr [], [])"
| "save_forms ((key, f) # rest) self =
     (case sf_save f self of
        Inl e \<Rightarrow> (Inl e, [SecondarySave key])
      | Inr r \<Rightarrow>
          (case save_forms rest self of
             (Inl e, calls) \<Rightarrow> (Inl e, SecondarySave key # calls)
           | (Inr rs, calls) \<Rightarrow> (Inr (r # rs), SecondarySave key # calls)))"

text \<open>
  \<open>ProcessMultipleFormsMixin.post\<close>. The result is the response or the exception, the
  view afterwards, and the save calls made, in order.
\<close>

definition post ::
  "('v, 'r, 'c) view_class \<Rightarrow> 'v view
   \<Rightarrow> (error + ('v, 'r, 'c) response) \<times> 'v view \<times> 'v event list" where
  "post cls self =
     (case vc_get_form cls self of
        (Inl e, self1) \<Rightarrow> (Inl e, self1, [])
      | (Inr form, self1) \<Rightarrow>
          (case vc_get_forms cls self1 of
             Inl e \<Rightarrow> (Inl e, self1, [])
           | Inr forms \<Rightarrow>
               if pf_is_valid form \<and> list_all sf_is_valid (map snd forms) then
                 (case pf_save form False self1 of
                    Inl e \<Rightarrow> (Inl e, self1, [FormSave False])
                  | Inr obj \<Rightarrow>
                      (let self2 = self1\<lparr>new_object := Obj obj\<rparr>
                       in case save_forms forms self2 of
                            (Inl e, calls) \<Rightarrow>
                              (Inl e, self2, [FormSave False, ObjectSave obj] @ calls)
                          | (Inr sub_objects, calls) \<Rightarrow>
                              (case vc_get_success_url cls self2 of
                                 (Inl e, self3) \<Rightarrow>
                                   (Inl e, self3,
                                    [FormSave False, ObjectSave obj] @ calls @ [SaveM2M])
                               | (Inr url, self3) \<Rightarrow>
                                   (Inr (HttpResponseRedirect url), self3,
                                    [FormSave False, ObjectSave obj] @ calls @ [SaveM2M]))))
               else
                 (case get_context_data cls self1 of
                    (Inl e, self2) \<Rightarrow> (Inl e, self2, [])
                  | (Inr ctx, self2) \<Rightarrow> (Inr (TemplateResponse ctx), self2, []))))"

section \<open>Properties of \<open>BoundCreateView\<close>\<close>




text \<open>
  Claim C8. Whenever \<open>get_form_kwargs\<close> returns, what it returns is what the
  superclass computes on the view with \<open>self.object\<close> cleared, and the view afterwards,
  \<open>self.object\<close> included, is the view before the call. It returns whenever
  \<open>self.object\<close> has been assigned and the superclass returns; an exception of the
  superclass is passed on.
\<close>

theorem get_form_kwargs_clears_and_restores:
  "(\<forall>kwargs. fst (get_form_kwargs super_method self) = Inr kwargs \<longrightarrow>
      super_method (self\<lparr>object := PyNone\<rparr>) = Inr kwargs \<and>
      snd (get_form_kwargs super_method self) = self \<and>
      object (snd (get_form_kwargs super_method self)) = object self) \<and>
   (object self \<noteq> Unset \<longrightarrow>
      fst (get_form_kwargs super_method self) = super_method (self\<lparr>object := PyNone\<rparr>))"
  by (cases "object self")
     (auto simp: get_form_kwargs_def Let_def split: sum.splits)

theorem get_form_kwargs_clears_and_restores_witness:
  "get_form_kwargs (\<lambda>v. Inr (object v))
     \<lparr>object = Obj \<lparr>obj_meta = None, obj_attrs = [(''name'', ''p'')]\<rparr>,
      new_object = Unset, model = None, template_name_suffix = ''_create'',
      bound_field = ''parent''\<rparr> =
   (Inr PyNone,
     \<lparr>object = Obj \<lparr>obj_meta = None, obj_attrs = [(''name'', ''p'')]\<rparr>,
      new_object = Unset, model = None, template_name_suffix = ''_create'',
      bound_field = ''parent''\<rparr>)"
proof -
  let ?self = "\<lparr>object = Obj \<lparr>obj_meta = None, obj_attrs = [(''name'', ''p'')]\<rparr>,
      new_object = Unset, model = None, template_name_suffix = ''_create'',
      bound_field = ''parent''\<rparr>"
  let ?super = "\<lambda>v :: string view. Inr (object v) :: error + string pyobj attr"
  note c8 = get_form_kwargs_clears_and_restores [of ?super ?self]
  have set: "object ?self \<noteq> Unset" by simp
  from c8 set have r: "fst (get_form_kwargs ?super ?self) = Inr PyNone" by simp
  with c8 have "snd (get_form_kwargs ?super ?self) = ?self" by blast
  with r show ?thesis by (simp add: prod_eq_iff)
qed

text \<open>
  Claim C9. When the superclass chain raises \<open>ImproperlyConfigured\<close>,
  \<open>get_template_names\<close> does not pass that exception on; once \<open>self.object\<close> has been
  assigned it does not raise at all: it returns a list, and when the parent object and
  the child model both have \<open>_meta\<close> the list is exactly the four names built from
  them.
\<close>

theorem template_names_without_super:
  assumes "super_method self = Inl (ImproperlyConfigured msg)"
  shows "(\<forall>msg1. get_template_names super_method self \<noteq> Inl (ImproperlyConfigured msg1)) \<and>
     (object self \<noteq> Unset \<longrightarrow>
       (\<exists>names. get_template_names super_method self = Inr names \<and>
         (\<forall>p pm m cm. object self = Obj p \<and> obj_meta p = Some pm \<and>
                      model self = Some m \<and> model_meta m = Some cm \<longrightarrow>
            names =
              [app_label pm @ ''/'' @ lower (object_name pm) @ ''_'' @ lower (object_name cm)
                 @ template_name_suffix self @ ''.html'',
               app_label cm @ ''/'' @ lower (object_name pm) @ ''_'' @ lower (object_name cm)
                 @ template_name_suffix self @ ''.html'',
               app_label cm @ ''/'' @ lower (object_name cm)
                 @ template_name_suffix self @ ''.html'',
               app_label pm @ ''/'' @ lower (object_name cm)
                 @ template_name_suffix self @ ''.html''])))"
  using assms
  by (cases "object self")
     (auto simp: get_template_names_def Let_def split: option.split)

theorem template_names_without_super_witness:
  "get_template_names (\<lambda>v. Inl (ImproperlyConfigured ''no template_name''))
     \<lparr>object = Obj \<lparr>obj_meta = Some \<lparr>app_label = ''shop'', object_name = ''Order''\<rparr>,
                     obj_attrs = ([] :: (string \<times> nat) list)\<rparr>,
      new_object = Unset,
      model = Some \<lparr>model_meta = Some \<lparr>app_label = ''stock'', object_name = ''Item''\<rparr>,
                    model_fields = []\<rparr>,
      template_name_suffix = ''_new'',
      bound_field = ''order''\<rparr> =
   Inr [''shop/order_item_new.html'', ''stock/order_item_new.html'',
        ''stock/item_new.html'', ''shop/item_new.html'']"
proof -
  let ?self = "\<lparr>object = Obj \<lparr>obj_meta = Some \<lparr>app_label = ''shop'', object_name = ''Order''\<rparr>,
                          obj_attrs = ([] :: (string \<times> nat) list)\<rparr>,
            new_object = Unset,
            model = Some \<lparr>model_meta = Some \<lparr>app_label = ''stock'', object_name = ''Item''\<rparr>,
                          model_fields = []\<rparr>,
            template_name_suffix = ''_new'',
            bound_field = ''order''\<rparr>"
  let ?super = "\<lambda>v :: nat view. Inl (ImproperlyConfigured ''no template_name'')
                  :: error + string list"
  have l1: "lower ''Order'' = ''order''" by code_simp
  have l2: "lower ''Item'' = ''item''" by code_simp
  have h: "?super ?self = Inl (ImproperlyConfigured ''no template_name'')" by simp
  have set: "object ?self \<noteq> Unset" by simp
  show ?thesis
    using template_names_without_super [of ?super ?self "''no template_name''"] h set
    by (simp add: l1 l2)
qed

section \<open>Properties of \<open>bound_object_form\<close>\<close>


lemma resolve_initial_Callable:
  "resolve_initial (Callable p) s =
     (case p s of Inl e \<Rightarrow> Inl e | Inr v \<Rightarrow> Inr (v, [ProducerCall]))"
  by (simp add: resolve_initial_def)


lemma save_bound_object_form:
  "save (bound_object_form ms m field initial form_arg) =
   bound_save (case form_arg of None \<Rightarrow> default_form ms m | Some f \<Rightarrow> f) field initial"
  by (simp add: bound_object_form_def Let_def)



text \<open>
  Claim C4. When the bound value is a callable, producing the form class and
  constructing a form make no call at all; each \<open>save\<close> calls the producer exactly once,
  after the base form's \<open>save(commit=False)\<close>, on the state of the program at the moment
  of the save, and assigns what it returns to the field (or raises what it raises).
\<close>

theorem producer_called_at_save_only:
  "snd (construct_form (bound_object_form ms m field (Callable producer) form_arg) data) = [] \<and>
   form_save (fst (construct_form (bound_object_form ms m field (Callable producer) form_arg) data))
       commit s =
     (case save (case form_arg of None \<Rightarrow> default_form ms m | Some f \<Rightarrow> f) data False s of
        Inl e \<Rightarrow> Inl e
      | Inr (obj, base_calls) \<Rightarrow>
          (case producer s of
             Inl e \<Rightarrow> Inl e
           | Inr v \<Rightarrow>
               Inr (setattr obj field v,
                    base_calls @ [ProducerCall]
                      @ (if commit then [ObjectSave (setattr obj field v)] else []))))"
  by (simp add: construct_form_def form_save_def save_bound_object_form bound_save_def
        resolve_initial_Callable Let_def split: sum.split prod.split)

section \<open>Properties of \<open>ProcessMultipleFormsMixin.post\<close>\<close>

lemma save_forms_all_return:
  assumes "\<forall>(key, f) \<in> set forms. \<exists>r. sf_save f self = Inr r"
  shows "\<exists>rs. save_forms forms self = (Inr rs, map (\<lambda>(key, f). SecondarySave key) forms)"
  using assms
proof (induction forms)
  case Nil
  then show ?case by simp
next
  case (Cons kf forms)
  obtain key f where kf: "kf = (key, f)" by (cases kf)
  from Cons.prems kf obtain r where r: "sf_save f self = Inr r" by auto
  from Cons.prems have "\<forall>(key, f) \<in> set forms. \<exists>r. sf_save f self = Inr r" by simp
  with Cons.IH obtain rs where
    "save_forms forms self = (Inr rs, map (\<lambda>(key, f). SecondarySave key) forms)" by blast
  with kf r show ?case by simp
qed



text \<open>
  Claim C3. When the primary form and every secondary form are valid and no call
  raises, \<open>post\<close> makes exactly these calls, in this order: the primary form's
  \<open>save(commit=False)\<close>, \<open>save()\<close> on the object it returned, \<open>save()\<close> on each
  secondary form in the order of the forms mapping, \<open>save_m2m()\<close> on the primary form;
  the secondary forms are saved on a view whose \<open>new_object\<close> is that object, and the
  response is the redirect to the success URL.
\<close>

theorem post_valid_saves_in_order:
  assumes "vc_get_form cls self = (Inr form, self1)"
    and "vc_get_forms cls self1 = Inr forms"
    and "pf_is_valid form"
    and "\<forall>f \<in> set (map snd forms). sf_is_valid f"
    and "pf_save form False self1 = Inr obj"
    and "\<forall>(key, f) \<in> set forms. \<exists>r. sf_save f (self1\<lparr>new_object := Obj obj\<rparr>) = Inr r"
    and "vc_get_success_url cls (self1\<lparr>new_object := Obj obj\<rparr>) = (Inr url, self3)"
  shows "post cls self =
           (Inr (HttpResponseRedirect url), self3,
            [FormSave False, ObjectSave obj]
              @ map (\<lambda>(key, f). SecondarySave key) forms @ [SaveM2M])"
proof -
  from assms(3,4) have valid: "pf_is_valid form \<and> list_all sf_is_valid (map snd forms)"
    by (simp add: list_all_iff)
  from save_forms_all_return [OF assms(6)] obtain rs where
    sf: "save_forms forms (self1\<lparr>new_object := Obj obj\<rparr>) =
           (Inr rs, map (\<lambda>(key, f). SecondarySave key) forms)" ..
  show ?thesis
    using assms(1,2,5,7) valid sf by (simp add: post_def Let_def)
qed


theorem post_valid_saves_in_order_witness:
  "post
     \<lparr>vc_get_form = (\<lambda>v. (Inr \<lparr>pf_is_valid = True,
                                  pf_save = (\<lambda>c v. Inr \<lparr>obj_meta = None,
                                                         obj_attrs = [(''name'', 1::nat)]\<rparr>)\<rparr>, v)),
      vc_get_forms = (\<lambda>v. Inr [(''child'', \<lparr>sf_is_valid = True, sf_save = (\<lambda>v. Inr ())\<rparr>),
                                (''note'', \<lparr>sf_is_valid = True, sf_save = (\<lambda>v. Inr ())\<rparr>)]),
      vc_get_success_url = (\<lambda>v. (Inr ''/done/'', v)),
      vc_super_get_context_data = (\<lambda>v. ())\<rparr>
     \<lparr>object = PyNone, new_object = Unset, model = None,
      template_name_suffix = ''_form'', bound_field = ''parent''\<rparr> =
   (Inr (HttpResponseRedirect ''/done/''),
    \<lparr>object = PyNone,
     new_object = Obj \<lparr>obj_meta = None, obj_attrs = [(''name'', 1::nat)]\<rparr>,
     model = None, template_name_suffix = ''_form'', bound_field = ''parent''\<rparr>,
    [FormSave False, ObjectSave \<lparr>obj_meta = None, obj_attrs = [(''name'', 1::nat)]\<rparr>,
     SecondarySave ''child'', SecondarySave ''note'', SaveM2M])"
proof -
  let ?O = "\<lparr>obj_meta = None, obj_attrs = [(''name'', 1::nat)]\<rparr>"
  let ?F = "\<lparr>pf_is_valid = True, pf_save = (\<lambda>c (v :: nat view). Inr ?O)\<rparr>"
  let ?V = "\<lparr>object = PyNone, new_object = Unset, model = None,
             template_name_suffix = ''_form'', bound_field = ''parent''\<rparr> :: nat view"
  let ?FS = "[(''child'', \<lparr>sf_is_valid = True, sf_save = (\<lambda>v :: nat view. Inr ())\<rparr>),
              (''note'', \<lparr>sf_is_valid = True, sf_save = (\<lambda>v :: nat view. Inr ())\<rparr>)]"
  let ?C = "\<lparr>vc_get_form = (\<lambda>v. (Inr ?F, v)),
             vc_get_forms = (\<lambda>v. Inr ?FS),
             vc_get_success_url = (\<lambda>v. (Inr ''/done/'', v)),
             vc_super_get_context_data = (\<lambda>v. ())\<rparr>"
  have h1: "vc_get_form ?C ?V = (Inr ?F, ?V)" by simp
  have h2: "vc_get_forms ?C ?V = Inr ?FS" by simp
  have h3: "pf_is_valid ?F" by simp
  have h4: "\<forall>f \<in> set (map snd ?FS). sf_is_valid f" by simp
  have h5: "pf_save ?F False ?V = Inr ?O" by simp
  have h6: "\<forall>(key, f) \<in> set ?FS. \<exists>r. sf_save f (?V\<lparr>new_object := Obj ?O\<rparr>) = Inr r" by simp
  have h7: "vc_get_success_url ?C (?V\<lparr>new_object := Obj ?O\<rparr>)
              = (Inr ''/done/'', ?V\<lparr>new_object := Obj ?O\<rparr>)" by simp
  show ?thesis
    using post_valid_saves_in_order [OF h1 h2 h3 h4 h5 h6 h7] by simp
qed

section \<open>Properties of \<open>bound_object_formset\<close> and \<open>MultiBoundObjectFormsMixin\<close>\<close>

lemma bound_object_formset_heap:
  "snd (bound_object_formset ms m q field initial form kwargs heap) =
     (case kw_exclude kwargs of
        None \<Rightarrow> heap
      | Some a \<Rightarrow> if field \<in> set (heap a) then heap else heap(a := heap a @ [field]))"
  by (simp add: bound_object_formset_def Let_def split: option.split)

lemma formset_calls_fixed:
  assumes "field \<in> set (heap a)"
  shows "fold (\<lambda>(m, q, initial, form, other) h.
            snd (bound_object_formset ms m q field initial form
                   \<lparr>kw_exclude = Some a, kw_other = other\<rparr> h)) calls heap = heap"
  using assms
  by (induction calls) (auto simp: bound_object_formset_heap)

lemma formset_calls_heap:
  assumes "calls \<noteq> []"
  shows "fold (\<lambda>(m, q, initial, form, other) h.
            snd (bound_object_formset ms m q field initial form
                   \<lparr>kw_exclude = Some a, kw_other = other\<rparr> h)) calls heap =
         (if field \<in> set (heap a) then heap else heap(a := heap a @ [field]))"
proof (cases calls)
  case Nil
  with assms show ?thesis by simp
next
  case (Cons c rest)
  obtain m q initial form other where c: "c = (m, q, initial, form, other)"
    by (cases c)
  show ?thesis
  proof (cases "field \<in> set (heap a)")
    case True
    then show ?thesis by (simp add: formset_calls_fixed)
  next
    case False
    have "field \<in> set ((heap(a := heap a @ [field])) a)" by simp
    then have "fold (\<lambda>(m, q, initial, form, other) h.
            snd (bound_object_formset ms m q field initial form
                   \<lparr>kw_exclude = Some a, kw_other = other\<rparr> h)) rest
              (heap(a := heap a @ [field])) = heap(a := heap a @ [field])"
      by (rule formset_calls_fixed)
    with False Cons c show ?thesis by (simp add: bound_object_formset_heap)
  qed
qed

lemma count_list_max_one:
  "count_list (if field \<in> set xs then xs else xs @ [field]) field
     = max 1 (count_list xs field)"
proof (cases "field \<in> set xs")
  case True
  then have "count_list xs field \<noteq> 0" by (simp add: count_list_0_iff)
  with True show ?thesis by simp
next
  case False
  then have "count_list xs field = 0" by (simp add: count_list_0_iff)
  with False show ?thesis by simp
qed

text \<open>
  Claim C10, as it is stated, fails on a list that already holds the field twice: the
  call appends nothing, and the field is still there twice, not once.
\<close>

theorem exclude_list_duplicate_counterexample:
  "count_list
     (snd (bound_object_formset
             (\<lambda>m d c s. Inl Http404 ::
                error + (unit pyobj \<times> unit event list))
             \<lparr>model_meta = None, model_fields = []\<rparr> () ''parent'' (Plain ())
             (None :: (unit, unit, unit) form_class option)
             \<lparr>kw_exclude = Some 0, kw_other = []\<rparr>
             (empty_heap(0 := [''parent'', ''parent''])))
        0)
     ''parent'' \<noteq> 1"
  by (simp add: bound_object_formset_heap)

text \<open>
  Claim C10, amended. A call whose options have an \<open>exclude\<close> list changes that list
  in the store, and no other: the field is appended when the list does not hold it,
  nothing is appended when it does. After one or more such calls on the same list, with
  any other arguments, the list is the list before the first call, followed by the field
  when it was missing; the field is in it as many times as before, and once when it was
  missing, so exactly once whenever it was there at most once.
\<close>

theorem exclude_list_appended_once:
  assumes "calls \<noteq> []"
  shows
    "(let after = fold (\<lambda>(m, q, initial, form, other) h.
                     snd (bound_object_formset ms m q field initial form
                            \<lparr>kw_exclude = Some a, kw_other = other\<rparr> h)) calls heap
      in after a = (if field \<in> set (heap a) then heap a else heap a @ [field]) \<and>
         (\<forall>b. b \<noteq> a \<longrightarrow> after b = heap b) \<and>
         count_list (after a) field = max 1 (count_list (heap a) field) \<and>
         (count_list (heap a) field \<le> 1 \<longrightarrow> count_list (after a) field = 1))"
proof -
  have "count_list (if field \<in> set (heap a) then heap a else heap a @ [field]) field
          = max 1 (count_list (heap a) field)"
    by (rule count_list_max_one)
  then show ?thesis
    unfolding Let_def formset_calls_heap [OF assms]
    by auto
qed

theorem exclude_list_appended_once_witness:
  "fold (\<lambda>(m, q, initial, form, other) h.
           snd (bound_object_formset
                  (\<lambda>m d c s. Inl Http404 :: error + (unit pyobj \<times> unit event list))
                  m q ''parent'' initial form
                  \<lparr>kw_exclude = Some 0, kw_other = other\<rparr> h
                :: (unit \<Rightarrow> heap \<Rightarrow> (unit, unit, unit, unit, unit) formset) \<times> heap))
      [(\<lparr>model_meta = None, model_fields = []\<rparr>, (), Plain (),
        (None :: (unit, unit, unit) form_class option), []),
       (\<lparr>model_meta = None, model_fields = []\<rparr>, (), Plain (),
        (None :: (unit, unit, unit) form_class option), [(''can_delete'', ''True'')])]
      (empty_heap(0 := [''name''])) 0
   = [''name'', ''parent'']"
proof -
  let ?calls = "[(\<lparr>model_meta = None, model_fields = []\<rparr>, (), Plain (),
        (None :: (unit, unit, unit) form_class option), []),
       (\<lparr>model_meta = None, model_fields = []\<rparr>, (), Plain (),
        (None :: (unit, unit, unit) form_class option), [(''can_delete'', ''True'')])]"
  let ?step = "\<lambda>(m, q, initial, form, other) h.
           snd (bound_object_formset
                  (\<lambda>m d c s. Inl Http404 :: error + (unit pyobj \<times> unit event list))
                  m q ''parent'' initial form
                  \<lparr>kw_exclude = Some 0, kw_other = other\<rparr> h
                :: (unit \<Rightarrow> heap \<Rightarrow> (unit, unit, unit, unit, unit) formset) \<times> heap)"
  let ?heap = "empty_heap(0 := [''name''])"
  have ne: "?calls \<noteq> []" by simp
  have "(let after = fold ?step ?calls ?heap
      in after 0 = (if ''parent'' \<in> set (?heap 0) then ?heap 0 else ?heap 0 @ [''parent'']) \<and>
         (\<forall>b. b \<noteq> 0 \<longrightarrow> after b = ?heap b) \<and>
         count_list (after 0) ''parent'' = max 1 (count_list (?heap 0) ''parent'') \<and>
         (count_list (?heap 0) ''parent'' \<le> 1 \<longrightarrow> count_list (after 0) ''parent'' = 1))"
    by (rule exclude_list_appended_once [OF ne])
  then show ?thesis by (simp add: Let_def)
qed

lemma scan_fields_append:
  "scan_fields (fs @ [f]) acc =
     (if is_foreign_key f then Some (field_name f) else scan_fields fs acc)"
  by (induction fs arbitrary: acc) simp_all

lemma scan_fields_none:
  "(scan_fields fs None = None) = (\<forall>f \<in> set fs. \<not> is_foreign_key f)"
proof (induction fs rule: rev_induct)
  case Nil
  then show ?case by simp
next
  case (snoc f fs)
  then show ?case by (auto simp: scan_fields_append)
qed

lemma scan_fields_last:
  assumes "filter is_foreign_key fs \<noteq> []"
  shows "scan_fields fs None = Some (field_name (last (filter is_foreign_key fs)))"
  using assms
proof (induction fs rule: rev_induct)
  case Nil
  then show ?case by simp
next
  case (snoc f fs)
  show ?case
  proof (cases "is_foreign_key f")
    case True
    then show ?thesis by (simp add: scan_fields_append)
  next
    case False
    with snoc.prems have "filter is_foreign_key fs \<noteq> []" by simp
    with snoc.IH False show ?thesis by (simp add: scan_fields_append)
  qed
qed

lemma no_foreign_key_is_configuration_error:
  assumes "entry_field_name model_conf = None"
    and "model_meta (entry_model model_conf) = Some meta"
    and "\<forall>f \<in> set (model_fields (entry_model model_conf)). \<not> is_foreign_key f"
  shows "\<exists>msg. foreign_key_field_of model_conf = Inl (ImproperlyConfigured msg)"
proof -
  from assms(3) have "scan_fields (model_fields (entry_model model_conf)) None = None"
    by (simp add: scan_fields_none)
  with assms(1,2) show ?thesis by (simp add: foreign_key_field_of_def)
qed

lemma get_forms_single_entry:
  "MultiBoundObjectFormsMixin_get_forms ms form_kwargs [model_conf] self heap =
     (case get_forms_entry ms form_kwargs self model_conf heap of
        Inl e \<Rightarrow> Inl e
      | Inr ((key, fs), heap1) \<Rightarrow> Inr ([(key, fs)], heap1))"
  by (simp add: MultiBoundObjectFormsMixin_get_forms_def split: sum.split prod.split)

text \<open>
  Claim C6. The claim (the first foreign key is detected) is what the comment and the
  docstring of the source say; the loop has no \<open>break\<close> and returns the last one. On a
  model that declares the foreign key \<open>author\<close>, then \<open>title\<close>, then the foreign key
  \<open>editor\<close>, the detected name is \<open>editor\<close>, and the first foreign key is \<open>author\<close>.
\<close>

theorem auto_detect_returns_last_foreign_key:
  "foreign_key_field_of
     (Model \<lparr>model_meta = Some \<lparr>app_label = ''library'', object_name = ''Book''\<rparr>,
             model_fields = [\<lparr>field_name = ''author'', is_foreign_key = True\<rparr>,
                             \<lparr>field_name = ''title'', is_foreign_key = False\<rparr>,
                             \<lparr>field_name = ''editor'', is_foreign_key = True\<rparr>]\<rparr>)
     = Inr ''editor'' \<and>
   map field_name
     (filter is_foreign_key
        [\<lparr>field_name = ''author'', is_foreign_key = True\<rparr>,
         \<lparr>field_name = ''title'', is_foreign_key = False\<rparr>,
         \<lparr>field_name = ''editor'', is_foreign_key = True\<rparr>])
     = [''author'', ''editor'']"
  by (simp add: foreign_key_field_of_def)




end
